theory Spec2Isabelle
  imports Complex_Main
begin

section \<open>Exceptions and capabilities\<close>

text \<open>
  The exceptions the transforms raise, as values. \<open>NotImplementedError\<close> carries the
  argument of the \<^verbatim>\<open>raise\<close>: the class of the receiver in \<^verbatim>\<open>Transform.apply_image\<close>,
  nothing in \<^verbatim>\<open>Transform.apply_coords\<close>. \<open>AttributeError\<close> carries the class its message
  names and the attribute that was looked up. \<open>Cv2Error\<close> is an exception of an OpenCV
  kernel, \<open>Raised\<close> one of a callable supplied by the caller.
\<close>

datatype error =
    NotImplementedError "string option"
  | AttributeError string string
  | AssertionError
  | ZeroDivisionError
  | IndexError
  | ValueError
  | Cv2Error
  | Raised string

text \<open>
  A capability is a callable of one argument. It may update its argument in place
  (the docstring of \<^verbatim>\<open>Transform\<close> allows it), so a call takes the heap \<open>'s\<close> and returns
  the heap it leaves, together with the value returned or the exception raised.
\<close>

type_synonym ('v, 's) capability = "'v \<Rightarrow> 's \<Rightarrow> (error + 'v) \<times> 's"

text \<open>
  A Python object, as far as the capabilities see it: its class, whether it is an
  instance of \<^verbatim>\<open>Transform\<close>, the attributes normal lookup finds (instance dictionary
  first, then the class and its bases), and the \<^verbatim>\<open>__getattr__\<close> hook of its class when
  it has one. Only the capability namespace (names starting with \<^verbatim>\<open>apply_\<close>) is
  modelled: private attributes such as \<^verbatim>\<open>_tfms\<close> or \<^verbatim>\<open>_init\<close> are not capabilities.
\<close>

record ('v, 's) obj =
  class_name :: string
  isinstance_Transform :: bool
  attrs :: "string \<Rightarrow> ('v, 's) capability option"
  getattr_hook :: "(string \<Rightarrow> error + ('v, 's) capability) option"

definition startswith :: "string \<Rightarrow> string \<Rightarrow> bool" where
  "startswith name pfx = (take (length pfx) name = pfx)"

text \<open>\<^verbatim>\<open>getattr(t, name)\<close>: normal lookup, then the hook, then Python's own
  \<^verbatim>\<open>AttributeError\<close>.\<close>

definition getattr :: "('v, 's) obj \<Rightarrow> string \<Rightarrow> error + ('v, 's) capability" where
  "getattr t name =
     (case attrs t name of
        Some m \<Rightarrow> Inr m
      | None \<Rightarrow>
          (case getattr_hook t of
             Some hook \<Rightarrow> hook name
           | None \<Rightarrow> Inl (AttributeError (class_name t) name)))"

text \<open>\<^verbatim>\<open>getattr(t, name)(x)\<close>, also written \<^verbatim>\<open>t.name(x)\<close>.\<close>

definition call_method :: "('v, 's) obj \<Rightarrow> string \<Rightarrow> ('v, 's) capability" where
  "call_method t name x s =
     (case getattr t name of
        Inl e \<Rightarrow> (Inl e, s)
      | Inr f \<Rightarrow> f x s)"

section \<open>The base class\<close>

definition Transform_apply_image :: "string \<Rightarrow> ('v, 's) capability" where
  "Transform_apply_image cls img s = (Inl (NotImplementedError (Some cls)), s)"

definition Transform_apply_coords :: "('v, 's) capability" where
  "Transform_apply_coords coords s = (Inl (NotImplementedError None), s)"

definition Transform_attrs :: "string \<Rightarrow> string \<Rightarrow> ('v, 's) capability option" where
  "Transform_attrs cls =
     [''apply_image'' \<mapsto> Transform_apply_image cls,
      ''apply_coords'' \<mapsto> Transform_apply_coords]"

definition Transform :: "('v, 's) obj" where
  "Transform =
     \<lparr>class_name = ''Transform'', isinstance_Transform = True,
      attrs = Transform_attrs ''Transform'', getattr_hook = None\<rparr>"

section \<open>TransformList\<close>

fun TransformList_apply ::
  "('v, 's) obj list \<Rightarrow> 'v \<Rightarrow> string \<Rightarrow> 's \<Rightarrow> (error + 'v) \<times> 's" where
  "TransformList_apply [] x meth s = (Inr x, s)"
| "TransformList_apply (t # tfms) x meth s =
     (case call_method t meth x s of
        (Inl e, s') \<Rightarrow> (Inl e, s')
      | (Inr x', s') \<Rightarrow> TransformList_apply tfms x' meth s')"

definition TransformList_apply_image :: "('v, 's) obj list \<Rightarrow> ('v, 's) capability" where
  "TransformList_apply_image tfms img = TransformList_apply tfms img ''apply_image''"

definition TransformList_apply_coords :: "('v, 's) obj list \<Rightarrow> ('v, 's) capability" where
  "TransformList_apply_coords tfms coords = TransformList_apply tfms coords ''apply_coords''"

definition TransformList_getattr ::
  "('v, 's) obj list \<Rightarrow> string \<Rightarrow> error + ('v, 's) capability" where
  "TransformList_getattr tfms name =
     (if startswith name ''apply_''
      then Inr (\<lambda>x. TransformList_apply tfms x name)
      else Inl (AttributeError ''TransformList'' name))"

definition TransformList :: "('v, 's) obj list \<Rightarrow> ('v, 's) obj" where
  "TransformList tfms =
     \<lparr>class_name = ''TransformList'', isinstance_Transform = True,
      attrs = (Transform_attrs ''TransformList'')
        (''apply_image'' \<mapsto> TransformList_apply_image tfms,
         ''apply_coords'' \<mapsto> TransformList_apply_coords tfms),
      getattr_hook = Some (TransformList_getattr tfms)\<rparr>"

definition TransformList_init :: "('v, 's) obj list \<Rightarrow> error + ('v, 's) obj" where
  "TransformList_init tfms =
     (if list_all isinstance_Transform tfms then Inr (TransformList tfms)
      else Inl AssertionError)"

section \<open>NoOpTransform\<close>

definition NoOpTransform_apply_image :: "('v, 's) capability" where
  "NoOpTransform_apply_image img s = (Inr img, s)"

definition NoOpTransform_apply_coords :: "('v, 's) capability" where
  "NoOpTransform_apply_coords coords s = (Inr coords, s)"

definition NoOpTransform_getattr :: "string \<Rightarrow> error + ('v, 's) capability" where
  "NoOpTransform_getattr name =
     (if startswith name ''apply_''
      then Inr (\<lambda>x s. (Inr x, s))
      else Inl (AttributeError ''TransformList'' name))"

definition NoOpTransform :: "('v, 's) obj" where
  "NoOpTransform =
     \<lparr>class_name = ''NoOpTransform'', isinstance_Transform = True,
      attrs = (Transform_attrs ''NoOpTransform'')
        (''apply_image'' \<mapsto> NoOpTransform_apply_image,
         ''apply_coords'' \<mapsto> NoOpTransform_apply_coords),
      getattr_hook = Some NoOpTransform_getattr\<rparr>"

section \<open>TransformFactory\<close>

text \<open>
  The constructor stores every keyword argument whose name starts with \<^verbatim>\<open>apply_\<close> as an
  instance attribute; an instance attribute shadows the method of the base class. The
  display name is not a capability and is left out.
\<close>

definition TransformFactory :: "(string \<rightharpoonup> ('v, 's) capability) \<Rightarrow> ('v, 's) obj" where
  "TransformFactory kwargs =
     \<lparr>class_name = ''TransformFactory'', isinstance_Transform = True,
      attrs = Transform_attrs ''TransformFactory'' ++
        (\<lambda>k. if startswith k ''apply_'' then kwargs k else None),
      getattr_hook = None\<rparr>"

section \<open>Applying children by hand\<close>

text \<open>
  What the specification compares the composite with: the capability of the first
  child applied to the value, the capability of the second applied to its result, and
  so on. An exception ends the chain.
\<close>

definition then_apply ::
  "('v, 's) capability \<Rightarrow> ('v, 's) capability \<Rightarrow> ('v, 's) capability" where
  "then_apply f g x s =
     (case f x s of
        (Inl e, s') \<Rightarrow> (Inl e, s')
      | (Inr y, s') \<Rightarrow> g y s')"

definition apply_children_in_order ::
  "('v, 's) obj list \<Rightarrow> string \<Rightarrow> ('v, 's) capability" where
  "apply_children_in_order children name =
     foldr (\<lambda>c rest. then_apply (call_method c name) rest) children (\<lambda>x s. (Inr x, s))"

section \<open>ResizeTransform\<close>

text \<open>
  A coordinate set is an \<open>N \<times> 2\<close> array of floating-point numbers, row \<open>i\<close> the point
  \<open>(x\<^sub>i, y\<^sub>i)\<close>. The numbers are rationals and the arithmetic is exact; where the
  rounding of the float format matters it is a parameter \<open>fl\<close>. (An array of integer
  dtype is not a coordinate set: an assignment into it would truncate.)

  The attributes \<^verbatim>\<open>h\<close>, \<^verbatim>\<open>w\<close>, ... that \<^verbatim>\<open>_init\<close> copies from the arguments of the constructor
  are the fields of a record; a field carries the name of its class, since several
  classes have an \<^verbatim>\<open>h\<close> and a \<^verbatim>\<open>w\<close>.
\<close>

type_synonym coords = "(rat \<times> rat) list"

record ResizeTransform =
  resize_h :: int
  resize_w :: int
  resize_new_h :: int
  resize_new_w :: int
  resize_interp :: int

text \<open>
  The two assignments of \<^verbatim>\<open>apply_coords\<close>, in order; a division by zero raises. The
  result is the contents of the array the method returns, which is its argument,
  updated in place.
\<close>

definition ResizeTransform_apply_coords :: "ResizeTransform \<Rightarrow> coords \<Rightarrow> error + coords" where
  "ResizeTransform_apply_coords t coords =
     (if resize_w t = 0 then Inl ZeroDivisionError
      else
        let coords1 =
          map (\<lambda>(x, y). (x * (of_int (resize_new_w t) * 1 / of_int (resize_w t)), y)) coords
        in
          if resize_h t = 0 then Inl ZeroDivisionError
          else
            Inr (map (\<lambda>(x, y). (x, y * (of_int (resize_new_h t) * 1 / of_int (resize_h t))))
                   coords1))"

text \<open>
  The same two assignments with the rounding of the floating-point operations made
  explicit: \<open>fl\<close> rounds the exact result of a division or a product to the float
  format. The dimensions are integers the format holds exactly. With \<open>fl\<close> the
  identity this is the function above.
\<close>

definition ResizeTransform_apply_coords_fl ::
  "(rat \<Rightarrow> rat) \<Rightarrow> ResizeTransform \<Rightarrow> coords \<Rightarrow> error + coords" where
  "ResizeTransform_apply_coords_fl fl t coords =
     (if resize_w t = 0 then Inl ZeroDivisionError
      else
        let coords1 =
          map (\<lambda>(x, y). (fl (x * fl (of_int (resize_new_w t) * 1 / of_int (resize_w t))), y))
            coords
        in
          if resize_h t = 0 then Inl ZeroDivisionError
          else
            Inr (map (\<lambda>(x, y).
                        (x, fl (y * fl (of_int (resize_new_h t) * 1 / of_int (resize_h t)))))
                   coords1))"

text \<open>
  The method as it acts on the heap: values are addresses, the heap gives the contents
  of the array at each address. Each assignment overwrites a column of the array at the
  address of the argument, and the method returns that address. A division by zero in
  the second assignment raises after the first has been stored.
\<close>

definition ResizeTransform_apply_coords_in_place ::
  "ResizeTransform \<Rightarrow> (nat, nat \<Rightarrow> coords) capability" where
  "ResizeTransform_apply_coords_in_place t coords heap =
     (if resize_w t = 0 then (Inl ZeroDivisionError, heap)
      else
        let heap1 = heap(coords :=
          map (\<lambda>(x, y). (x * (of_int (resize_new_w t) * 1 / of_int (resize_w t)), y))
            (heap coords))
        in
          if resize_h t = 0 then (Inl ZeroDivisionError, heap1)
          else
            (Inr coords,
             heap1(coords :=
               map (\<lambda>(x, y). (x, y * (of_int (resize_new_h t) * 1 / of_int (resize_h t))))
                 (heap1 coords))))"

section \<open>Images and the OpenCV kernels\<close>

text \<open>
  An array is its shape and its items by index. An image has two axes (height, width)
  or three (height, width, channels).
\<close>

datatype 'a ndarray = NDArray (shape: "nat list") (item: "nat list \<Rightarrow> 'a")

definition ndim :: "'a ndarray \<Rightarrow> nat" where
  "ndim arr = length (shape arr)"

text \<open>\<^verbatim>\<open>ret[:, :, np.newaxis]\<close> for a \<open>ret\<close> of two axes: the item at \<open>(i, j, 0)\<close> is the
  item of \<open>ret\<close> at \<open>(i, j)\<close>.\<close>

definition newaxis :: "'a ndarray \<Rightarrow> 'a ndarray" where
  "newaxis ret = NDArray (shape ret @ [1]) (\<lambda>idx. item ret (take 2 idx))"

text \<open>
  \<^verbatim>\<open>cv2.resize\<close>, \<^verbatim>\<open>cv2.warpAffine\<close> and \<^verbatim>\<open>cv2.transpose\<close> belong to OpenCV, not to this
  repository: each is a parameter of the method that calls it, with the arguments of
  the call. \<open>None\<close> stands for an exception of the kernel.
\<close>

definition ResizeTransform_apply_image ::
  "('a ndarray \<Rightarrow> int \<times> int \<Rightarrow> int \<Rightarrow> 'a ndarray option) \<Rightarrow>
   ResizeTransform \<Rightarrow> 'a ndarray \<Rightarrow> error + 'a ndarray" where
  "ResizeTransform_apply_image cv2_resize t img =
     (if map int (take 2 (shape img)) \<noteq> [resize_h t, resize_w t] then Inl AssertionError
      else
        (case cv2_resize img (resize_new_w t, resize_new_h t) (resize_interp t) of
           None \<Rightarrow> Inl Cv2Error
         | Some ret \<Rightarrow>
             Inr (if ndim img = 3 \<and> ndim ret = 2 then newaxis ret else ret)))"

section \<open>CropTransform\<close>

record CropTransform =
  crop_y0 :: int
  crop_x0 :: int
  crop_h :: int
  crop_w :: int

text \<open>A bound of a slice \<^verbatim>\<open>a[i:j]\<close> on an axis of length \<open>n\<close>, as Python adjusts it: a
  negative bound counts from the end, and the result is clipped to \<open>0 .. n\<close>.\<close>

definition slice_bound :: "int \<Rightarrow> nat \<Rightarrow> nat" where
  "slice_bound i n =
     (if i < 0 then (if i + int n < 0 then 0 else nat (i + int n))
      else if int n \<le> i then n
      else nat i)"

text \<open>\<^verbatim>\<open>img[y0:y0 + h, x0:x0 + w]\<close>: two slices need two axes; an empty slice has length
  0. The result is a view of the image; only its contents are modelled.\<close>

definition CropTransform_apply_image ::
  "CropTransform \<Rightarrow> 'a ndarray \<Rightarrow> error + 'a ndarray" where
  "CropTransform_apply_image t img =
     (case shape img of
        H # W # rest \<Rightarrow>
          let ys = slice_bound (crop_y0 t) H;
              ye = slice_bound (crop_y0 t + crop_h t) H;
              xs = slice_bound (crop_x0 t) W;
              xe = slice_bound (crop_x0 t + crop_w t) W
          in Inr (NDArray ((ye - ys) # (xe - xs) # rest)
                   (\<lambda>idx. case idx of
                      i # j # r \<Rightarrow> item img ((ys + i) # (xs + j) # r)
                    | _ \<Rightarrow> item img idx))
      | _ \<Rightarrow> Inl IndexError)"

section \<open>WarpAffineTransform\<close>

text \<open>The matrix is a two-dimensional array with at least one row, given by its
  rows.\<close>

record WarpAffineTransform =
  warp_mat :: "rat list list"
  warp_dsize :: "int \<times> int"
  warp_interp :: int
  warp_borderMode :: int
  warp_borderValue :: rat

definition WarpAffineTransform_apply_image ::
  "('a ndarray \<Rightarrow> rat list list \<Rightarrow> int \<times> int \<Rightarrow> int \<Rightarrow> int \<Rightarrow> rat \<Rightarrow> 'a ndarray option) \<Rightarrow>
   WarpAffineTransform \<Rightarrow> 'a ndarray \<Rightarrow> error + 'a ndarray" where
  "WarpAffineTransform_apply_image cv2_warpAffine t img =
     (case cv2_warpAffine img (warp_mat t) (warp_dsize t) (warp_interp t)
             (warp_borderMode t) (warp_borderValue t) of
        None \<Rightarrow> Inl Cv2Error
      | Some ret \<Rightarrow>
          Inr (if ndim img = 3 \<and> ndim ret = 2 then newaxis ret else ret))"

text \<open>\<^verbatim>\<open>np.dot(a, b)\<close> for two-dimensional arrays given by their rows: the item at
  \<open>(i, j)\<close> is the sum of the products of row \<open>i\<close> of \<open>a\<close> with column \<open>j\<close> of \<open>b\<close>. The
  number of columns of \<open>a\<close> must be the number of rows of \<open>b\<close>.\<close>

definition np_dot :: "rat list list \<Rightarrow> nat \<Rightarrow> rat list list \<Rightarrow> error + rat list list" where
  "np_dot a ncols b =
     (if ncols \<noteq> length b then Inl ValueError
      else Inr (map (\<lambda>row. map (\<lambda>col. sum_list (map2 (*) row col)) (transpose b)) a))"

text \<open>\<^verbatim>\<open>apply_coords\<close> builds new arrays: a column of ones is appended to the
  coordinates, and the \<open>N \<times> 3\<close> array is multiplied by the transpose of the matrix.\<close>

definition WarpAffineTransform_apply_coords ::
  "WarpAffineTransform \<Rightarrow> coords \<Rightarrow> error + rat list list" where
  "WarpAffineTransform_apply_coords t coords =
     (let coords3 = map (\<lambda>(x, y). [x, y, 1]) coords
      in np_dot coords3 3 (transpose (warp_mat t)))"

section \<open>TransposeTransform\<close>

definition TransposeTransform_apply_image ::
  "('a ndarray \<Rightarrow> 'a ndarray option) \<Rightarrow> 'a ndarray \<Rightarrow> error + 'a ndarray" where
  "TransposeTransform_apply_image cv2_transpose img =
     (case cv2_transpose img of
        None \<Rightarrow> Inl Cv2Error
      | Some ret \<Rightarrow>
          Inr (if ndim img = 3 \<and> ndim ret = 2 then newaxis ret else ret))"

section \<open>Properties of the composite and of the identity\<close>

lemma TransformList_call:
  "startswith name ''apply_'' \<Longrightarrow>
   call_method (TransformList tfms) name x s = TransformList_apply tfms x name s"
  by (auto simp: call_method_def getattr_def TransformList_def TransformList_getattr_def
        TransformList_apply_image_def TransformList_apply_coords_def Transform_attrs_def
        fun_eq_iff split: option.splits)

lemma TransformList_init_Transforms:
  "list_all isinstance_Transform tfms \<Longrightarrow> TransformList_init tfms = Inr (TransformList tfms)"
  by (simp add: TransformList_init_def)

lemma TransformList_apply_append:
  "TransformList_apply (as @ bs) x name s =
     (case TransformList_apply as x name s of
        (Inl e, s') \<Rightarrow> (Inl e, s')
      | (Inr y, s') \<Rightarrow> TransformList_apply bs y name s')"
  by (induction as arbitrary: x s) (auto split: prod.splits sum.splits)

lemma TransformList_apply_in_order:
  "TransformList_apply children x name s = apply_children_in_order children name x s"
  by (induction children arbitrary: x s)
     (auto simp: apply_children_in_order_def then_apply_def split: prod.splits sum.splits)

text \<open>
  C1: for every list of children and every capability name, \<^verbatim>\<open>apply_image\<close> and
  \<^verbatim>\<open>apply_coords\<close> among them, calling the capability on the composite is the
  capability of the first child, then that of the second on its result, and so on to
  the last child, in the order of the list. In particular the composite of one child
  is that child, and the composite of a list followed by another is the composite of
  the first list followed by the composite of the second.
\<close>

theorem TransformList_applies_children_in_order:
  assumes "startswith name ''apply_''"
  shows "call_method (TransformList children) name x s =
      apply_children_in_order children name x s \<and>
    call_method (TransformList [c]) name x s = call_method c name x s \<and>
    call_method (TransformList (first @ second)) name x s =
      then_apply (call_method (TransformList first) name)
        (call_method (TransformList second) name) x s"
proof (intro conjI)
  show "call_method (TransformList children) name x s =
      apply_children_in_order children name x s"
    by (simp add: TransformList_call [OF assms] TransformList_apply_in_order)
  show "call_method (TransformList [c]) name x s = call_method c name x s"
    by (simp add: TransformList_call [OF assms] split: prod.splits sum.splits)
  show "call_method (TransformList (first @ second)) name x s =
      then_apply (call_method (TransformList first) name)
        (call_method (TransformList second) name) x s"
    by (simp add: TransformList_call [OF assms] TransformList_apply_append then_apply_def
        split: prod.splits sum.splits)
qed

text \<open>Adding one and doubling do not commute: on 3 the composite gives 8 in one order
  and 7 in the other.\<close>

theorem TransformList_applies_children_in_order_witness:
  "startswith ''apply_image'' ''apply_'' \<and>
   call_method
     (TransformList
        [TransformFactory [''apply_image'' \<mapsto> (\<lambda>x s. (Inr (x + 1), s))],
         TransformFactory [''apply_image'' \<mapsto> (\<lambda>x s. (Inr (2 * x), s))]])
     ''apply_image'' (3::int) () = (Inr 8, ()) \<and>
   call_method
     (TransformList
        [TransformFactory [''apply_image'' \<mapsto> (\<lambda>x s. (Inr (2 * x), s))],
         TransformFactory [''apply_image'' \<mapsto> (\<lambda>x s. (Inr (x + 1), s))]])
     ''apply_image'' (3::int) () = (Inr 7, ())"
  using
    TransformList_applies_children_in_order [where name = "''apply_image''" and x = "3::int"
      and s = "()" and c = NoOpTransform and first = "[]" and second = "[]" and children =
      "[TransformFactory [''apply_image'' \<mapsto> (\<lambda>x s. (Inr (x + 1), s))],
        TransformFactory [''apply_image'' \<mapsto> (\<lambda>x s. (Inr (2 * x), s))]]"]
    TransformList_applies_children_in_order [where name = "''apply_image''" and x = "3::int"
      and s = "()" and c = NoOpTransform and first = "[]" and second = "[]" and children =
      "[TransformFactory [''apply_image'' \<mapsto> (\<lambda>x s. (Inr (2 * x), s))],
        TransformFactory [''apply_image'' \<mapsto> (\<lambda>x s. (Inr (x + 1), s))]]"]
  by (simp add: startswith_def apply_children_in_order_def then_apply_def call_method_def
      getattr_def TransformFactory_def map_add_def)

lemma ResizeTransform_apply_coords_in_place_value:
  "ResizeTransform_apply_coords t (heap a) = Inr v \<Longrightarrow>
   ResizeTransform_apply_coords_in_place t a heap = (Inr a, heap(a := v))"
  by (auto simp: ResizeTransform_apply_coords_def ResizeTransform_apply_coords_in_place_def
        Let_def split: if_splits)

lemma TransformList_apply_child_fails:
  assumes "\<And>y s'. isl (fst (call_method c name y s'))"
  shows "isl (fst (TransformList_apply (before @ c # after) x name s))"
proof (cases "TransformList_apply before x name s")
  case (Pair r s')
  show ?thesis
  proof (cases r)
    case (Inl e)
    with Pair show ?thesis by (simp add: TransformList_apply_append)
  next
    case (Inr y)
    obtain r' s'' where c: "call_method c name y s' = (r', s'')" by (cases "call_method c name y s'")
    with assms [of y s'] obtain e where "r' = Inl e" by (cases r') auto
    with Pair Inr c show ?thesis by (simp add: TransformList_apply_append)
  qed
qed

lemma TransformList_apply_reaches_child:
  assumes "TransformList_apply before x name s = (Inr y, s')"
    and "call_method c name y s' = (Inl e, s'')"
  shows "TransformList_apply (before @ c # after) x name s = (Inl e, s'')"
  using assms by (simp add: TransformList_apply_append)

text \<open>
  C2, as the code has it. A child does not support a capability when the lookup of the
  name on it raises (it has no such attribute and either no \<^verbatim>\<open>__getattr__\<close> or one that
  raises), or when the attribute is the method it inherits from \<^verbatim>\<open>Transform\<close>. If any
  child does not support the capability, the call on the composite fails. The
  composite makes no check before it starts: it applies the children in order, and
  when the children before the unsupported child have succeeded the call fails with
  the exception of that child, raised when the child is reached, on the heap the
  earlier children left. That exception is \<open>AttributeError\<close> naming the class of the
  child and the capability when the child has no such attribute and no
  \<^verbatim>\<open>__getattr__\<close>, \<open>NotImplementedError\<close> carrying the class of the child when the child
  inherits \<^verbatim>\<open>Transform.apply_image\<close>, and a \<open>NotImplementedError\<close> when it inherits
  \<^verbatim>\<open>Transform.apply_coords\<close>. The same holds of a child that fails for any other reason.
\<close>

theorem TransformList_fails_at_unsupported_child:
  assumes name: "startswith name ''apply_''"
  shows
    "(getattr c name = Inl e0 \<or>
      attrs c name = Some (Transform_apply_image (class_name c)) \<or>
      attrs c name = Some Transform_apply_coords \<longrightarrow>
        isl (fst (call_method (TransformList (before @ c # after)) name x s))) \<and>
     (call_method (TransformList before) name x s = (Inr y, s') \<longrightarrow>
        (getattr c name = Inl e \<longrightarrow>
           call_method (TransformList (before @ c # after)) name x s = (Inl e, s')) \<and>
        (attrs c name = None \<and> getattr_hook c = None \<longrightarrow>
           call_method (TransformList (before @ c # after)) name x s =
             (Inl (AttributeError (class_name c) name), s')) \<and>
        (attrs c name = Some (Transform_apply_image (class_name c)) \<longrightarrow>
           call_method (TransformList (before @ c # after)) name x s =
             (Inl (NotImplementedError (Some (class_name c))), s')) \<and>
        (attrs c name = Some Transform_apply_coords \<longrightarrow>
           (\<exists>arg. call_method (TransformList (before @ c # after)) name x s =
             (Inl (NotImplementedError arg), s'))) \<and>
        (call_method c name y s' = (Inl e, s'') \<longrightarrow>
           call_method (TransformList (before @ c # after)) name x s = (Inl e, s'')))"
proof -
  have lookup: "call_method c name y s' = (Inl e, s')" if "getattr c name = Inl e" for e y s'
    using that by (simp add: call_method_def)
  have missing: "getattr c name = Inl (AttributeError (class_name c) name)"
    if "attrs c name = None \<and> getattr_hook c = None"
    using that by (simp add: getattr_def)
  have image: "call_method c name y s' = (Inl (NotImplementedError (Some (class_name c))), s')"
    if "attrs c name = Some (Transform_apply_image (class_name c))" for y s'
    using that by (simp add: call_method_def getattr_def Transform_apply_image_def)
  have coords: "call_method c name y s' = (Inl (NotImplementedError None), s')"
    if "attrs c name = Some Transform_apply_coords" for y s'
    using that by (simp add: call_method_def getattr_def Transform_apply_coords_def)
  have fails: "isl (fst (call_method (TransformList (before @ c # after)) name x s))"
    if "getattr c name = Inl e0 \<or>
      attrs c name = Some (Transform_apply_image (class_name c)) \<or>
      attrs c name = Some Transform_apply_coords"
  proof -
    have "isl (fst (call_method c name y s'))" for y s'
      using that lookup [of e0 y s'] image [of y s'] coords [of y s'] by auto
    then show ?thesis
      by (simp add: TransformList_call [OF name] TransformList_apply_child_fails)
  qed
  have reach: "call_method (TransformList (before @ c # after)) name x s = (Inl e', s'')"
    if "call_method (TransformList before) name x s = (Inr y, s')"
      and "call_method c name y s' = (Inl e', s'')" for e' s''
    using that by (simp add: TransformList_call [OF name] TransformList_apply_reaches_child)
  show ?thesis
    using fails reach lookup [of _ y s'] missing image [of y s'] coords [of y s'] by blast
qed

text \<open>After a \<^verbatim>\<open>NoOpTransform\<close>, a plain \<^verbatim>\<open>Transform\<close> fails on \<^verbatim>\<open>apply_masks\<close> (no such
  attribute), on \<^verbatim>\<open>apply_image\<close> and on \<^verbatim>\<open>apply_coords\<close> (the inherited methods).\<close>

theorem TransformList_fails_at_unsupported_child_witness:
  "startswith ''apply_masks'' ''apply_'' \<and>
   call_method (TransformList [NoOpTransform]) ''apply_masks'' (3::int) (0::nat) = (Inr 3, 0) \<and>
   attrs (Transform :: (int, nat) obj) ''apply_masks'' = None \<and>
   getattr_hook (Transform :: (int, nat) obj) = None \<and>
   call_method (TransformList ([NoOpTransform] @ Transform # [NoOpTransform]))
     ''apply_masks'' (3::int) (0::nat) = (Inl (AttributeError ''Transform'' ''apply_masks''), 0) \<and>
   attrs (Transform :: (int, nat) obj) ''apply_image'' =
     Some (Transform_apply_image (class_name (Transform :: (int, nat) obj))) \<and>
   call_method (TransformList ([NoOpTransform] @ Transform # [NoOpTransform]))
     ''apply_image'' (3::int) (0::nat) = (Inl (NotImplementedError (Some ''Transform'')), 0) \<and>
   attrs (Transform :: (int, nat) obj) ''apply_coords'' = Some Transform_apply_coords \<and>
   isl (fst (call_method (TransformList ([NoOpTransform] @ Transform # [NoOpTransform]))
     ''apply_coords'' (3::int) (0::nat)))"
proof -
  have n1: "startswith ''apply_masks'' ''apply_''" and n2: "startswith ''apply_image'' ''apply_''"
    and n3: "startswith ''apply_coords'' ''apply_''"
    by (simp_all add: startswith_def)
  have b1: "call_method (TransformList [NoOpTransform]) ''apply_masks'' (3::int) (0::nat) =
      (Inr 3, 0)"
    by (subst TransformList_call [OF n1])
       (simp add: call_method_def getattr_def NoOpTransform_def NoOpTransform_getattr_def
          Transform_attrs_def startswith_def)
  have b2: "call_method (TransformList [NoOpTransform]) ''apply_image'' (3::int) (0::nat) =
      (Inr 3, 0)"
    by (subst TransformList_call [OF n2])
       (simp add: call_method_def getattr_def NoOpTransform_def NoOpTransform_apply_image_def)
  have a1: "attrs (Transform :: (int, nat) obj) ''apply_masks'' = None"
    and h1: "getattr_hook (Transform :: (int, nat) obj) = None"
    and a2: "attrs (Transform :: (int, nat) obj) ''apply_image'' =
      Some (Transform_apply_image (class_name (Transform :: (int, nat) obj)))"
    and a3: "attrs (Transform :: (int, nat) obj) ''apply_coords'' = Some Transform_apply_coords"
    and cn: "class_name (Transform :: (int, nat) obj) = ''Transform''"
    by (simp_all add: Transform_def Transform_attrs_def)
  show ?thesis
    using
      TransformList_fails_at_unsupported_child [OF n1, where c = "Transform :: (int, nat) obj"
        and before = "[NoOpTransform]" and after = "[NoOpTransform]" and x = 3 and s = 0
        and y = 3 and s' = 0 and e0 = AssertionError and e = AssertionError and s'' = 0]
      TransformList_fails_at_unsupported_child [OF n2, where c = "Transform :: (int, nat) obj"
        and before = "[NoOpTransform]" and after = "[NoOpTransform]" and x = 3 and s = 0
        and y = 3 and s' = 0 and e0 = AssertionError and e = AssertionError and s'' = 0]
      TransformList_fails_at_unsupported_child [OF n3, where c = "Transform :: (int, nat) obj"
        and before = "[NoOpTransform]" and after = "[NoOpTransform]" and x = 3 and s = 0
        and y = 3 and s' = 0 and e0 = AssertionError and e = AssertionError and s'' = 0]
      n1 b1 b2 a1 h1 a2 a3 cn
    by simp
qed

text \<open>
  C2 as stated fails. The first child scales the array at address 0 in place, the
  second is a plain \<^verbatim>\<open>Transform\<close>, which does not support \<^verbatim>\<open>apply_coords\<close>. The call
  fails with a \<open>NotImplementedError\<close> that carries nothing, and the array has been
  scaled: the first capability was applied before the second child was reached.
\<close>

theorem TransformList_no_check_beforehand_counterexample:
  "call_method
     (TransformList
        [TransformFactory [''apply_coords'' \<mapsto> ResizeTransform_apply_coords_in_place
            \<lparr>resize_h = 100, resize_w = 100, resize_new_h = 50, resize_new_w = 50,
             resize_interp = 1\<rparr>],
         Transform])
     ''apply_coords'' 0 (\<lambda>a. [(50, 50)]) =
   (Inl (NotImplementedError None), (\<lambda>a. [(50, 50)])(0 := [(25, 25)]))"
  by (simp add: call_method_def getattr_def TransformList_def TransformList_apply_coords_def
      TransformFactory_def Transform_def Transform_attrs_def startswith_def
      ResizeTransform_apply_coords_in_place_def map_add_def Transform_apply_coords_def)

text \<open>
  C3: \<^verbatim>\<open>NoOpTransform\<close> returns the image it is given, the coordinate set it is given,
  and the argument of every other capability whose name starts with \<^verbatim>\<open>apply_\<close>: the
  value returned is the argument itself (no other value is built) and the heap is
  left as it was.
\<close>

theorem NoOpTransform_returns_argument:
  "NoOpTransform_apply_image img s = (Inr img, s) \<and>
   NoOpTransform_apply_coords coords s = (Inr coords, s) \<and>
   call_method NoOpTransform ''apply_image'' img s = (Inr img, s) \<and>
   call_method NoOpTransform ''apply_coords'' coords s = (Inr coords, s) \<and>
   (startswith name ''apply_'' \<longrightarrow> call_method NoOpTransform name x s = (Inr x, s))"
  by (auto simp: call_method_def getattr_def NoOpTransform_def NoOpTransform_getattr_def
        NoOpTransform_apply_image_def NoOpTransform_apply_coords_def Transform_attrs_def
        fun_eq_iff split: option.splits)

theorem NoOpTransform_returns_argument_witness:
  "startswith ''apply_boxes'' ''apply_'' \<and>
   call_method NoOpTransform ''apply_boxes'' [(1::nat, 2::nat)] (0::nat) = (Inr [(1, 2)], 0)"
  using NoOpTransform_returns_argument [where name = "''apply_boxes''" and s = "0::nat"
      and x = "[(1::nat, 2::nat)]" and img = "[[0::nat]]" and coords = "[(0::int, 0::int)]"]
  by (simp add: startswith_def)

text \<open>C10: the composite of no children returns its argument, for every capability
  name, and leaves the heap as it was.\<close>

theorem empty_TransformList_identity:
  "startswith name ''apply_'' \<Longrightarrow>
   call_method (TransformList []) name x s = (Inr x, s)"
  by (simp add: TransformList_call)

theorem empty_TransformList_identity_witness:
  "startswith ''apply_image'' ''apply_'' \<and> startswith ''apply_masks'' ''apply_'' \<and>
   call_method (TransformList []) ''apply_image'' (7::int) (0::nat) = (Inr 7, 0) \<and>
   call_method (TransformList []) ''apply_masks'' (7::int) (0::nat) = (Inr 7, 0)"
  using empty_TransformList_identity [of "''apply_image''" "7::int" "0::nat"]
    empty_TransformList_identity [of "''apply_masks''" "7::int" "0::nat"]
  by (simp add: startswith_def)

section \<open>Properties of the geometric transforms\<close>

lemma slice_bound_nonneg: "0 \<le> i \<Longrightarrow> slice_bound i n = min (nat i) n"
  by (auto simp: slice_bound_def)

text \<open>
  C4: with \<open>h\<close> and \<open>w\<close> other than 0 (the quotients of the claim are defined),
  \<^verbatim>\<open>apply_coords\<close> of a resize maps each point \<open>(x, y)\<close> to
  \<open>(x * (new_w / w), y * (new_h / h))\<close>, each axis by its own factor, the products being
  the exact ones: nothing is rounded to a grid. With the rounding \<open>fl\<close> of the float
  format made explicit, the quotient is rounded once and the product once. From 100 by
  100 to 50 by 50 the point \<open>(50, 50)\<close> goes to \<open>(25, 25)\<close> and \<open>(0, 0)\<close> to \<open>(0, 0)\<close>.
\<close>

theorem ResizeTransform_apply_coords_scales:
  "(resize_w t \<noteq> 0 \<and> resize_h t \<noteq> 0 \<longrightarrow>
      ResizeTransform_apply_coords t coords =
        Inr (map (\<lambda>(x, y). (x * (of_int (resize_new_w t) / of_int (resize_w t)),
                             y * (of_int (resize_new_h t) / of_int (resize_h t)))) coords)) \<and>
   (resize_w t \<noteq> 0 \<and> resize_h t \<noteq> 0 \<longrightarrow>
      ResizeTransform_apply_coords_fl fl t coords =
        Inr (map (\<lambda>(x, y). (fl (x * fl (of_int (resize_new_w t) / of_int (resize_w t))),
                             fl (y * fl (of_int (resize_new_h t) / of_int (resize_h t)))))
               coords)) \<and>
   ResizeTransform_apply_coords
     \<lparr>resize_h = 100, resize_w = 100, resize_new_h = 50, resize_new_w = 50, resize_interp = i\<rparr>
     [(50, 50), (0, 0)] = Inr [(25, 25), (0, 0)]"
  by (auto simp: ResizeTransform_apply_coords_def ResizeTransform_apply_coords_fl_def)

text \<open>From 3 by 3 to 2 high and 5 wide: the point \<open>(1, 1)\<close> goes to \<open>(5/3, 2/3)\<close>.\<close>

theorem ResizeTransform_apply_coords_scales_witness:
  "resize_w \<lparr>resize_h = 3, resize_w = 3, resize_new_h = 2, resize_new_w = 5, resize_interp = 1\<rparr>
     \<noteq> 0 \<and>
   resize_h \<lparr>resize_h = 3, resize_w = 3, resize_new_h = 2, resize_new_w = 5, resize_interp = 1\<rparr>
     \<noteq> 0 \<and>
   ResizeTransform_apply_coords
     \<lparr>resize_h = 3, resize_w = 3, resize_new_h = 2, resize_new_w = 5, resize_interp = 1\<rparr>
     [(1, 1), (50, 50)] = Inr [(5 / 3, 2 / 3), (250 / 3, 100 / 3)]"
  using ResizeTransform_apply_coords_scales [of
      "\<lparr>resize_h = 3, resize_w = 3, resize_new_h = 2, resize_new_w = 5, resize_interp = 1\<rparr>"
      "[(1, 1), (50, 50)]" "\<lambda>q. q" 1]
  by simp

text \<open>
  C5: \<^verbatim>\<open>apply_image\<close> of a resize raises \<open>AssertionError\<close> exactly when the first two
  dimensions of the image are not \<open>(h, w)\<close>, whatever the kernel would do; when they are
  \<open>(h, w)\<close> the assertion cannot fail.
\<close>

theorem ResizeTransform_apply_image_asserts_shape:
  "(ResizeTransform_apply_image cv2_resize t img = Inl AssertionError) =
   (map int (take 2 (shape img)) \<noteq> [resize_h t, resize_w t])"
  by (auto simp: ResizeTransform_apply_image_def split: option.splits)

theorem ResizeTransform_apply_image_asserts_shape_witness:
  "ResizeTransform_apply_image (\<lambda>img dsize interp. Some img)
     \<lparr>resize_h = 3, resize_w = 5, resize_new_h = 3, resize_new_w = 4, resize_interp = 1\<rparr>
     (NDArray [3, 4, 3] (\<lambda>idx. 0::nat)) = Inl AssertionError \<and>
   ResizeTransform_apply_image (\<lambda>img dsize interp. Some img)
     \<lparr>resize_h = 3, resize_w = 4, resize_new_h = 3, resize_new_w = 4, resize_interp = 1\<rparr>
     (NDArray [3, 4, 3] (\<lambda>idx. 0::nat)) \<noteq> Inl AssertionError"
  using
    ResizeTransform_apply_image_asserts_shape [of "\<lambda>img dsize interp. Some img"
      "\<lparr>resize_h = 3, resize_w = 5, resize_new_h = 3, resize_new_w = 4, resize_interp = 1\<rparr>"
      "NDArray [3, 4, 3] (\<lambda>idx. 0::nat)"]
    ResizeTransform_apply_image_asserts_shape [of "\<lambda>img dsize interp. Some img"
      "\<lparr>resize_h = 3, resize_w = 4, resize_new_h = 3, resize_new_w = 4, resize_interp = 1\<rparr>"
      "NDArray [3, 4, 3] (\<lambda>idx. 0::nat)"]
  by simp

text \<open>
  C6, as the code has it: on an image of at least two axes \<^verbatim>\<open>apply_image\<close> of a crop
  raises nothing, wherever the region lies. With \<open>y0\<close>, \<open>x0\<close>, \<open>h\<close>, \<open>w\<close> not negative it
  returns the part of the region \<open>[y0 : y0 + h, x0 : x0 + w]\<close> that lies inside the image:
  rows \<open>min y0 H\<close> to \<open>min (y0 + h) H\<close> and columns \<open>min x0 W\<close> to \<open>min (x0 + w) W\<close>. When the
  region lies inside the image that is the whole region, \<open>h\<close> by \<open>w\<close>.
\<close>

theorem CropTransform_apply_image_truncates:
  assumes "shape img = H # W # rest"
  shows "\<exists>ret. CropTransform_apply_image t img = Inr ret \<and>
    (0 \<le> crop_y0 t \<and> 0 \<le> crop_x0 t \<and> 0 \<le> crop_h t \<and> 0 \<le> crop_w t \<longrightarrow>
       shape ret =
         (min (nat (crop_y0 t + crop_h t)) H - min (nat (crop_y0 t)) H) #
         (min (nat (crop_x0 t + crop_w t)) W - min (nat (crop_x0 t)) W) # rest \<and>
       (\<forall>i j r. item ret (i # j # r) =
          item img ((min (nat (crop_y0 t)) H + i) # (min (nat (crop_x0 t)) W + j) # r)) \<and>
       (crop_y0 t + crop_h t \<le> int H \<and> crop_x0 t + crop_w t \<le> int W \<longrightarrow>
          shape ret = nat (crop_h t) # nat (crop_w t) # rest \<and>
          (\<forall>i j r. item ret (i # j # r) =
             item img ((nat (crop_y0 t) + i) # (nat (crop_x0 t) + j) # r))))"
  using assms
  by (auto simp: CropTransform_apply_image_def Let_def slice_bound_nonneg min_def nat_add_distrib)

text \<open>A 4 by 6 image: the region \<open>[1 : 3, 2 : 5]\<close> lies inside and comes out 2 by 3; the
  region \<open>[3 : 8, 4 : 9]\<close> does not and comes out 1 by 2.\<close>

theorem CropTransform_apply_image_truncates_witness:
  "shape (NDArray [4, 6] (\<lambda>idx. 6 * hd idx + hd (tl idx))) = [4, 6] \<and>
   map_sum id shape
     (CropTransform_apply_image \<lparr>crop_y0 = 1, crop_x0 = 2, crop_h = 2, crop_w = 3\<rparr>
        (NDArray [4, 6] (\<lambda>idx. 6 * hd idx + hd (tl idx)))) = Inr [2, 3] \<and>
   map_sum id shape
     (CropTransform_apply_image \<lparr>crop_y0 = 3, crop_x0 = 4, crop_h = 5, crop_w = 5\<rparr>
        (NDArray [4, 6] (\<lambda>idx. 6 * hd idx + hd (tl idx)))) = Inr [1, 2]"
proof -
  have sh: "shape (NDArray [4, 6] (\<lambda>idx. 6 * hd idx + hd (tl idx))) = 4 # 6 # []"
    by simp
  show ?thesis
    using sh
      CropTransform_apply_image_truncates [OF sh,
        of "\<lparr>crop_y0 = 1, crop_x0 = 2, crop_h = 2, crop_w = 3\<rparr>"]
      CropTransform_apply_image_truncates [OF sh,
        of "\<lparr>crop_y0 = 3, crop_x0 = 4, crop_h = 5, crop_w = 5\<rparr>"]
    by auto
qed

text \<open>
  C6 as stated fails. On the 2 by 2 image with rows \<open>[0, 1]\<close> and \<open>[2, 3]\<close> the region
  \<open>[1 : 6, 1 : 6]\<close> reaches beyond both bounds; the call raises nothing and returns the
  1 by 1 image holding 3.
\<close>

theorem CropTransform_out_of_bounds_counterexample:
  "\<not> isl (CropTransform_apply_image
            \<lparr>crop_y0 = 1, crop_x0 = 1, crop_h = 5, crop_w = 5\<rparr>
            (NDArray [2, 2] (\<lambda>idx. 2 * hd idx + hd (tl idx)))) \<and>
   shape (projr (CropTransform_apply_image
            \<lparr>crop_y0 = 1, crop_x0 = 1, crop_h = 5, crop_w = 5\<rparr>
            (NDArray [2, 2] (\<lambda>idx. 2 * hd idx + hd (tl idx))))) = [1, 1] \<and>
   item (projr (CropTransform_apply_image
            \<lparr>crop_y0 = 1, crop_x0 = 1, crop_h = 5, crop_w = 5\<rparr>
            (NDArray [2, 2] (\<lambda>idx. 2 * hd idx + hd (tl idx))))) [0, 0] = (3::nat)"
  by (simp add: CropTransform_apply_image_def slice_bound_def)

text \<open>
  C7: with the matrix of rows \<open>[a, b, c]\<close> and \<open>[d, e, f]\<close>, \<^verbatim>\<open>apply_coords\<close> of an affine
  warp turns each point \<open>(x, y)\<close> into the row vector \<open>[x, y, 1]\<close> times the transpose of
  the matrix, that is \<open>[x * a + y * b + 1 * c, x * d + y * e + 1 * f]\<close>; with the rows
  \<open>[1, 0, 0]\<close> and \<open>[0, 1, 0]\<close> every point keeps its coordinates.
\<close>

theorem WarpAffineTransform_apply_coords_affine:
  "(warp_mat t = [[a, b, c], [d, e, f]] \<longrightarrow>
      WarpAffineTransform_apply_coords t coords =
        Inr (map (\<lambda>(x, y). [x * a + y * b + 1 * c, x * d + y * e + 1 * f]) coords)) \<and>
   (warp_mat t = [[1, 0, 0], [0, 1, 0]] \<longrightarrow>
      WarpAffineTransform_apply_coords t coords = Inr (map (\<lambda>(x, y). [x, y]) coords))"
  by (auto simp: WarpAffineTransform_apply_coords_def np_dot_def)

theorem WarpAffineTransform_apply_coords_affine_witness:
  "WarpAffineTransform_apply_coords
     \<lparr>warp_mat = [[1, 2, 3], [4, 5, 6]], warp_dsize = (130, 130), warp_interp = 1,
      warp_borderMode = 0, warp_borderValue = 0\<rparr> [(1, 1), (2, 0)] =
     Inr [[6, 15], [5, 14]] \<and>
   WarpAffineTransform_apply_coords
     \<lparr>warp_mat = [[1, 0, 0], [0, 1, 0]], warp_dsize = (130, 130), warp_interp = 1,
      warp_borderMode = 0, warp_borderValue = 0\<rparr> [(1, 1), (2, 0)] =
     Inr [[1, 1], [2, 0]]"
  using
    WarpAffineTransform_apply_coords_affine [of
      "\<lparr>warp_mat = [[1, 2, 3], [4, 5, 6]], warp_dsize = (130, 130), warp_interp = 1,
        warp_borderMode = 0, warp_borderValue = 0\<rparr>" 1 2 3 4 5 6 "[(1, 1), (2, 0)]"]
    WarpAffineTransform_apply_coords_affine [of
      "\<lparr>warp_mat = [[1, 0, 0], [0, 1, 0]], warp_dsize = (130, 130), warp_interp = 1,
        warp_borderMode = 0, warp_borderValue = 0\<rparr>" 1 0 0 0 1 0 "[(1, 1), (2, 0)]"]
  by simp

lemma ResizeTransform_apply_coords_fl_exact:
  "ResizeTransform_apply_coords_fl (\<lambda>q. q) t coords = ResizeTransform_apply_coords t coords"
  by (simp add: ResizeTransform_apply_coords_fl_def ResizeTransform_apply_coords_def)

lemma fl_relative:
  fixes fl :: "rat \<Rightarrow> rat"
  assumes "\<forall>q. \<bar>fl q - q\<bar> \<le> u * \<bar>q\<bar>"
  shows "\<exists>d. \<bar>d\<bar> \<le> u \<and> fl q = q * (1 + d)"
proof (cases "q = 0")
  case True
  from assms have "\<bar>fl 1 - 1\<bar> \<le> u * \<bar>1\<bar>" by blast
  then have u0: "0 \<le> u" by simp
  from assms have "\<bar>fl 0 - 0\<bar> \<le> u * \<bar>0\<bar>" by blast
  then have "fl 0 = 0" by simp
  with True u0 show ?thesis by (intro exI [of _ 0]) simp
next
  case False
  let ?d = "(fl q - q) / q"
  from assms have "\<bar>fl q - q\<bar> \<le> u * \<bar>q\<bar>" by blast
  with False have "\<bar>?d\<bar> \<le> u"
    by (simp add: abs_divide pos_divide_le_eq)
  moreover from False have "fl q = q * (1 + ?d)"
    by (simp add: field_simps)
  ultimately show ?thesis by blast
qed

lemma factor_step:
  fixes p d a u :: rat
  assumes "\<bar>p - 1\<bar> \<le> a" "\<bar>d\<bar> \<le> u"
  shows "\<bar>p * (1 + d) - 1\<bar> \<le> (1 + a) * (1 + u) - 1"
proof -
  have a0: "0 \<le> a" and u0: "0 \<le> u" using assms by linarith+
  have eq: "p * (1 + d) - 1 = (p - 1) * (1 + d) + d" by (simp add: algebra_simps)
  have "\<bar>(p - 1) * (1 + d)\<bar> = \<bar>p - 1\<bar> * \<bar>1 + d\<bar>" by (simp add: abs_mult)
  also have "\<dots> \<le> a * (1 + u)"
    using assms a0 by (intro mult_mono) linarith+
  finally have "\<bar>(p - 1) * (1 + d)\<bar> \<le> a * (1 + u)" .
  then have "\<bar>(p - 1) * (1 + d) + d\<bar> \<le> a * (1 + u) + u"
    using assms(2) by linarith
  then show ?thesis unfolding eq by (simp add: algebra_simps)
qed

lemma four_factors:
  fixes u :: rat
  assumes "\<bar>d1\<bar> \<le> u" "\<bar>d2\<bar> \<le> u" "\<bar>d3\<bar> \<le> u" "\<bar>d4\<bar> \<le> u"
  shows "\<bar>(1 + d1) * (1 + d2) * (1 + d3) * (1 + d4) - 1\<bar> \<le> (1 + u) ^ 4 - 1"
proof -
  have s0: "\<bar>(1::rat) - 1\<bar> \<le> 0" by simp
  have s1: "\<bar>1 * (1 + d1) - 1\<bar> \<le> (1 + 0) * (1 + u) - 1"
    by (rule factor_step [OF s0 assms(1)])
  have s2: "\<bar>(1 * (1 + d1)) * (1 + d2) - 1\<bar> \<le> (1 + ((1 + 0) * (1 + u) - 1)) * (1 + u) - 1"
    by (rule factor_step [OF s1 assms(2)])
  have s3: "\<bar>((1 * (1 + d1)) * (1 + d2)) * (1 + d3) - 1\<bar>
      \<le> (1 + ((1 + ((1 + 0) * (1 + u) - 1)) * (1 + u) - 1)) * (1 + u) - 1"
    by (rule factor_step [OF s2 assms(3)])
  have s4: "\<bar>(((1 * (1 + d1)) * (1 + d2)) * (1 + d3)) * (1 + d4) - 1\<bar>
      \<le> (1 + ((1 + ((1 + ((1 + 0) * (1 + u) - 1)) * (1 + u) - 1)) * (1 + u) - 1)) * (1 + u) - 1"
    by (rule factor_step [OF s3 assms(4)])
  then show ?thesis by (simp add: power4_eq_xxxx)
qed

lemma scalar_round_trip:
  fixes fl :: "rat \<Rightarrow> rat"
  assumes m: "\<forall>q. \<bar>fl q - q\<bar> \<le> u * \<bar>q\<bar>" and a: "a \<noteq> 0" and b: "b \<noteq> 0"
  shows "\<bar>fl (fl (x * fl (a / b)) * fl (b / a)) - x\<bar> \<le> ((1 + u) ^ 4 - 1) * \<bar>x\<bar>"
proof -
  define r1 where "r1 = fl (a / b)"
  define x1 where "x1 = fl (x * r1)"
  define r2 where "r2 = fl (b / a)"
  define x2 where "x2 = fl (x1 * r2)"
  obtain d1 where d1: "\<bar>d1\<bar> \<le> u" "r1 = a / b * (1 + d1)"
    unfolding r1_def using fl_relative [OF m] by blast
  obtain d2 where d2: "\<bar>d2\<bar> \<le> u" "x1 = x * r1 * (1 + d2)"
    unfolding x1_def using fl_relative [OF m] by blast
  obtain d3 where d3: "\<bar>d3\<bar> \<le> u" "r2 = b / a * (1 + d3)"
    unfolding r2_def using fl_relative [OF m] by blast
  obtain d4 where d4: "\<bar>d4\<bar> \<le> u" "x2 = x1 * r2 * (1 + d4)"
    unfolding x2_def using fl_relative [OF m] by blast
  have "x2 = x * (a / b * (1 + d1)) * (1 + d2) * (b / a * (1 + d3)) * (1 + d4)"
    by (simp only: d4(2) d2(2) d1(2) d3(2))
  also have "\<dots> = x * ((1 + d1) * (1 + d2) * (1 + d3) * (1 + d4))"
    using a b by (simp add: field_simps)
  finally have "x2 - x = x * ((1 + d1) * (1 + d2) * (1 + d3) * (1 + d4) - 1)"
    by (simp add: algebra_simps)
  then have "\<bar>x2 - x\<bar> = \<bar>x\<bar> * \<bar>(1 + d1) * (1 + d2) * (1 + d3) * (1 + d4) - 1\<bar>"
    by (simp add: abs_mult)
  also have "\<dots> \<le> \<bar>x\<bar> * ((1 + u) ^ 4 - 1)"
    by (intro mult_left_mono four_factors d1 d2 d3 d4) simp
  finally show ?thesis by (simp add: mult.commute x2_def x1_def r1_def r2_def)
qed

text \<open>
  C8: with all four dimensions positive, resizing the coordinates from \<open>(h, w)\<close> to
  \<open>(new_h, new_w)\<close> and back from \<open>(new_h, new_w)\<close> to \<open>(h, w)\<close>, with one interpolation
  mode, gives back every coordinate: exactly under exact arithmetic, and under a
  rounding \<open>fl\<close> of relative error at most \<open>u\<close> to within \<open>((1 + u)^4 - 1)\<close> times its
  absolute value (four operations are rounded on the way).
\<close>

theorem ResizeTransform_apply_coords_round_trip:
  assumes "0 < h" "0 < w" "0 < new_h" "0 < new_w"
  shows
    "(case ResizeTransform_apply_coords
             \<lparr>resize_h = h, resize_w = w, resize_new_h = new_h, resize_new_w = new_w,
              resize_interp = i\<rparr> coords of
        Inl e \<Rightarrow> Inl e
      | Inr there \<Rightarrow>
          ResizeTransform_apply_coords
            \<lparr>resize_h = new_h, resize_w = new_w, resize_new_h = h, resize_new_w = w,
             resize_interp = i\<rparr> there) = Inr coords \<and>
     ((\<forall>q. \<bar>fl q - q\<bar> \<le> u * \<bar>q\<bar>) \<longrightarrow>
        (\<exists>there back.
           ResizeTransform_apply_coords_fl fl
             \<lparr>resize_h = h, resize_w = w, resize_new_h = new_h, resize_new_w = new_w,
              resize_interp = i\<rparr> coords = Inr there \<and>
           ResizeTransform_apply_coords_fl fl
             \<lparr>resize_h = new_h, resize_w = new_w, resize_new_h = h, resize_new_w = w,
              resize_interp = i\<rparr> there = Inr back \<and>
           list_all2
             (\<lambda>(x', y') (x, y).
                \<bar>x' - x\<bar> \<le> ((1 + u) ^ 4 - 1) * \<bar>x\<bar> \<and> \<bar>y' - y\<bar> \<le> ((1 + u) ^ 4 - 1) * \<bar>y\<bar>)
             back coords))"
proof (intro conjI impI)
  show "(case ResizeTransform_apply_coords
             \<lparr>resize_h = h, resize_w = w, resize_new_h = new_h, resize_new_w = new_w,
              resize_interp = i\<rparr> coords of
        Inl e \<Rightarrow> Inl e
      | Inr there \<Rightarrow>
          ResizeTransform_apply_coords
            \<lparr>resize_h = new_h, resize_w = new_w, resize_new_h = h, resize_new_w = w,
             resize_interp = i\<rparr> there) = Inr coords"
    using assms by (auto simp: ResizeTransform_apply_coords_def comp_def case_prod_beta
        intro!: map_idI)
next
  assume m: "\<forall>q. \<bar>fl q - q\<bar> \<le> u * \<bar>q\<bar>"
  have nz: "(of_int w :: rat) \<noteq> 0" "(of_int h :: rat) \<noteq> 0"
    "(of_int new_w :: rat) \<noteq> 0" "(of_int new_h :: rat) \<noteq> 0"
    using assms by simp_all
  have x: "\<bar>fl (fl (x * fl (of_int new_w / of_int w)) * fl (of_int w / of_int new_w)) - x\<bar>
      \<le> ((1 + u) ^ 4 - 1) * \<bar>x\<bar>" for x
    by (rule scalar_round_trip [OF m nz(3) nz(1)])
  have y: "\<bar>fl (fl (y * fl (of_int new_h / of_int h)) * fl (of_int h / of_int new_h)) - y\<bar>
      \<le> ((1 + u) ^ 4 - 1) * \<bar>y\<bar>" for y
    by (rule scalar_round_trip [OF m nz(4) nz(2)])
  show "\<exists>there back.
           ResizeTransform_apply_coords_fl fl
             \<lparr>resize_h = h, resize_w = w, resize_new_h = new_h, resize_new_w = new_w,
              resize_interp = i\<rparr> coords = Inr there \<and>
           ResizeTransform_apply_coords_fl fl
             \<lparr>resize_h = new_h, resize_w = new_w, resize_new_h = h, resize_new_w = w,
              resize_interp = i\<rparr> there = Inr back \<and>
           list_all2
             (\<lambda>(x', y') (x, y).
                \<bar>x' - x\<bar> \<le> ((1 + u) ^ 4 - 1) * \<bar>x\<bar> \<and> \<bar>y' - y\<bar> \<le> ((1 + u) ^ 4 - 1) * \<bar>y\<bar>)
             back coords"
    using assms x y
    by (auto simp: ResizeTransform_apply_coords_fl_def comp_def case_prod_beta
        list_all2_map1 intro!: list_all2_same [THEN iffD2])
qed

text \<open>From 7 by 3 to 5 by 11 and back, exactly; and with every rounded result one
  eighth too large a coordinate 1 comes back as \<open>(9/8)^4 = 6561/4096\<close>, which is the
  bound.\<close>

theorem ResizeTransform_apply_coords_round_trip_witness:
  "(0::int) < 7 \<and> (0::int) < 3 \<and> (0::int) < 5 \<and> (0::int) < 11 \<and>
   ResizeTransform_apply_coords
     \<lparr>resize_h = 7, resize_w = 3, resize_new_h = 5, resize_new_w = 11, resize_interp = 1\<rparr>
     [(1, 2), (1 / 3, 10)] = Inr [(11 / 3, 10 / 7), (11 / 9, 50 / 7)] \<and>
   ResizeTransform_apply_coords
     \<lparr>resize_h = 5, resize_w = 11, resize_new_h = 7, resize_new_w = 3, resize_interp = 1\<rparr>
     [(11 / 3, 10 / 7), (11 / 9, 50 / 7)] = Inr [(1, 2), (1 / 3, 10)] \<and>
   (\<forall>q::rat. \<bar>q * (9 / 8) - q\<bar> \<le> 1 / 8 * \<bar>q\<bar>) \<and>
   (\<exists>there back.
      ResizeTransform_apply_coords_fl (\<lambda>q. q * (9 / 8))
        \<lparr>resize_h = 7, resize_w = 3, resize_new_h = 5, resize_new_w = 11, resize_interp = 1\<rparr>
        [(1, 0)] = Inr there \<and>
      ResizeTransform_apply_coords_fl (\<lambda>q. q * (9 / 8))
        \<lparr>resize_h = 5, resize_w = 11, resize_new_h = 7, resize_new_w = 3, resize_interp = 1\<rparr>
        there = Inr back \<and>
      back = [(6561 / 4096, 0)] \<and>
      list_all2
        (\<lambda>(x', y') (x, y).
           \<bar>x' - x\<bar> \<le> ((1 + 1 / 8) ^ 4 - 1) * \<bar>x\<bar> \<and> \<bar>y' - y\<bar> \<le> ((1 + 1 / 8) ^ 4 - 1) * \<bar>y\<bar>)
        back [(1, 0)])"
proof -
  have fwd: "ResizeTransform_apply_coords
     \<lparr>resize_h = 7, resize_w = 3, resize_new_h = 5, resize_new_w = 11, resize_interp = 1\<rparr>
     [(1, 2), (1 / 3, 10)] = Inr [(11 / 3, 10 / 7), (11 / 9, 50 / 7)]"
    by (simp add: ResizeTransform_apply_coords_def)
  have m: "\<forall>q::rat. \<bar>q * (9 / 8) - q\<bar> \<le> 1 / 8 * \<bar>q\<bar>"
    by (simp add: abs_if)
  have rounded: "ResizeTransform_apply_coords_fl (\<lambda>q. q * (9 / 8))
        \<lparr>resize_h = 7, resize_w = 3, resize_new_h = 5, resize_new_w = 11, resize_interp = 1\<rparr>
        [(1, 0)] = Inr [(297 / 64, 0)]"
    by (simp add: ResizeTransform_apply_coords_fl_def)
  have bwd: "ResizeTransform_apply_coords_fl (\<lambda>q. q * (9 / 8))
        \<lparr>resize_h = 5, resize_w = 11, resize_new_h = 7, resize_new_w = 3, resize_interp = 1\<rparr>
        [(297 / 64, 0)] = Inr [(6561 / 4096, 0)]"
    by (simp add: ResizeTransform_apply_coords_fl_def)
  from ResizeTransform_apply_coords_round_trip [of 7 3 5 11 1 "[(1, 2), (1 / 3, 10)]"
      "\<lambda>q. q * (9 / 8)" "1 / 8"]
  have exact: "ResizeTransform_apply_coords
     \<lparr>resize_h = 5, resize_w = 11, resize_new_h = 7, resize_new_w = 3, resize_interp = 1\<rparr>
     [(11 / 3, 10 / 7), (11 / 9, 50 / 7)] = Inr [(1, 2), (1 / 3, 10)]"
    using fwd by simp
  from ResizeTransform_apply_coords_round_trip [of 7 3 5 11 1 "[(1, 0)]"
      "\<lambda>q. q * (9 / 8)" "1 / 8"] m
  have "\<exists>there back.
      ResizeTransform_apply_coords_fl (\<lambda>q. q * (9 / 8))
        \<lparr>resize_h = 7, resize_w = 3, resize_new_h = 5, resize_new_w = 11, resize_interp = 1\<rparr>
        [(1, 0)] = Inr there \<and>
      ResizeTransform_apply_coords_fl (\<lambda>q. q * (9 / 8))
        \<lparr>resize_h = 5, resize_w = 11, resize_new_h = 7, resize_new_w = 3, resize_interp = 1\<rparr>
        there = Inr back \<and>
      list_all2
        (\<lambda>(x', y') (x, y).
           \<bar>x' - x\<bar> \<le> ((1 + 1 / 8) ^ 4 - 1) * \<bar>x\<bar> \<and> \<bar>y' - y\<bar> \<le> ((1 + 1 / 8) ^ 4 - 1) * \<bar>y\<bar>)
        back [(1, 0)]"
    by simp
  then have "\<exists>there back.
      ResizeTransform_apply_coords_fl (\<lambda>q. q * (9 / 8))
        \<lparr>resize_h = 7, resize_w = 3, resize_new_h = 5, resize_new_w = 11, resize_interp = 1\<rparr>
        [(1, 0)] = Inr there \<and>
      ResizeTransform_apply_coords_fl (\<lambda>q. q * (9 / 8))
        \<lparr>resize_h = 5, resize_w = 11, resize_new_h = 7, resize_new_w = 3, resize_interp = 1\<rparr>
        there = Inr back \<and>
      back = [(6561 / 4096, 0)] \<and>
      list_all2
        (\<lambda>(x', y') (x, y).
           \<bar>x' - x\<bar> \<le> ((1 + 1 / 8) ^ 4 - 1) * \<bar>x\<bar> \<and> \<bar>y' - y\<bar> \<le> ((1 + 1 / 8) ^ 4 - 1) * \<bar>y\<bar>)
        back [(1, 0)]"
    using rounded bwd by auto
  with fwd exact m show ?thesis by simp
qed

text \<open>
  C9: \<^verbatim>\<open>apply_image\<close> of a resize (on an image of the declared size), of an affine warp
  and of a transpose keeps the channel axis. Let the kernel return an image \<open>ret\<close> of two
  or three axes. When the input has three axes the output has three: if \<open>ret\<close> has two,
  the output is \<open>ret\<close> with a last axis of length 1 and the same items. When the input
  does not have three axes the output is \<open>ret\<close> as the kernel returned it.
\<close>

theorem apply_image_keeps_channel_axis:
  assumes "ndim ret = 2 \<or> ndim ret = 3"
  shows
    "(map int (take 2 (shape img)) = [resize_h rt, resize_w rt] \<and>
      cv2_resize img (resize_new_w rt, resize_new_h rt) (resize_interp rt) = Some ret \<longrightarrow>
        (\<exists>out. ResizeTransform_apply_image cv2_resize rt img = Inr out \<and>
           (ndim img = 3 \<longrightarrow> ndim out = 3) \<and>
           (ndim img = 3 \<and> ndim ret = 2 \<longrightarrow>
              shape out = shape ret @ [1] \<and> (\<forall>i j. item out [i, j, 0] = item ret [i, j])) \<and>
           (ndim img \<noteq> 3 \<longrightarrow> out = ret))) \<and>
     (cv2_warpAffine img (warp_mat wt) (warp_dsize wt) (warp_interp wt) (warp_borderMode wt)
        (warp_borderValue wt) = Some ret \<longrightarrow>
        (\<exists>out. WarpAffineTransform_apply_image cv2_warpAffine wt img = Inr out \<and>
           (ndim img = 3 \<longrightarrow> ndim out = 3) \<and>
           (ndim img = 3 \<and> ndim ret = 2 \<longrightarrow>
              shape out = shape ret @ [1] \<and> (\<forall>i j. item out [i, j, 0] = item ret [i, j])) \<and>
           (ndim img \<noteq> 3 \<longrightarrow> out = ret))) \<and>
     (cv2_transpose img = Some ret \<longrightarrow>
        (\<exists>out. TransposeTransform_apply_image cv2_transpose img = Inr out \<and>
           (ndim img = 3 \<longrightarrow> ndim out = 3) \<and>
           (ndim img = 3 \<and> ndim ret = 2 \<longrightarrow>
              shape out = shape ret @ [1] \<and> (\<forall>i j. item out [i, j, 0] = item ret [i, j])) \<and>
           (ndim img \<noteq> 3 \<longrightarrow> out = ret)))"
  using assms
  by (auto simp: ResizeTransform_apply_image_def WarpAffineTransform_apply_image_def
      TransposeTransform_apply_image_def ndim_def newaxis_def)

text \<open>A 2 by 2 image with one channel, and kernels that return a 1 by 1 image of two
  axes: each output is 1 by 1 by 1.\<close>

theorem apply_image_keeps_channel_axis_witness:
  "(ndim (NDArray [1, 1] (\<lambda>idx. 7::nat)) = 2 \<or> ndim (NDArray [1, 1] (\<lambda>idx. 7::nat)) = 3) \<and>
   ndim (NDArray [2, 2, 1] (\<lambda>idx. 0::nat)) = 3 \<and>
   map_sum id shape
     (ResizeTransform_apply_image (\<lambda>img dsize interp. Some (NDArray [1, 1] (\<lambda>idx. 7)))
        \<lparr>resize_h = 2, resize_w = 2, resize_new_h = 1, resize_new_w = 1, resize_interp = 1\<rparr>
        (NDArray [2, 2, 1] (\<lambda>idx. 0::nat))) = Inr [1, 1, 1] \<and>
   map_sum id shape
     (WarpAffineTransform_apply_image
        (\<lambda>img mat dsize interp borderMode borderValue. Some (NDArray [1, 1] (\<lambda>idx. 7)))
        \<lparr>warp_mat = [[1, 0, 0], [0, 1, 0]], warp_dsize = (1, 1), warp_interp = 1,
         warp_borderMode = 0, warp_borderValue = 0\<rparr>
        (NDArray [2, 2, 1] (\<lambda>idx. 0::nat))) = Inr [1, 1, 1] \<and>
   map_sum id shape
     (TransposeTransform_apply_image (\<lambda>img. Some (NDArray [1, 1] (\<lambda>idx. 7)))
        (NDArray [2, 2, 1] (\<lambda>idx. 0::nat))) = Inr [1, 1, 1]"
proof -
  have ret: "ndim (NDArray [1, 1] (\<lambda>idx. 7::nat)) = 2 \<or> ndim (NDArray [1, 1] (\<lambda>idx. 7::nat)) = 3"
    by (simp add: ndim_def)
  show ?thesis
    using ret
      apply_image_keeps_channel_axis [OF ret, of "NDArray [2, 2, 1] (\<lambda>idx. 0::nat)"
        "\<lparr>resize_h = 2, resize_w = 2, resize_new_h = 1, resize_new_w = 1, resize_interp = 1\<rparr>"
        "\<lambda>img dsize interp. Some (NDArray [1, 1] (\<lambda>idx. 7))"
        "\<lambda>img mat dsize interp borderMode borderValue. Some (NDArray [1, 1] (\<lambda>idx. 7))"
        "\<lparr>warp_mat = [[1, 0, 0], [0, 1, 0]], warp_dsize = (1, 1), warp_interp = 1,
          warp_borderMode = 0, warp_borderValue = 0\<rparr>"
        "\<lambda>img. Some (NDArray [1, 1] (\<lambda>idx. 7))"]
    by (auto simp: ndim_def)
qed

end
